theory Spec2Isabelle
  imports
    Complex_Main
    "HOL-Library.Multiset"
    "HOL-Library.AList"
    "HOL-Library.Product_Lexorder"
    "HOL-Library.List_Lexorder"
    "HOL-Library.Char_ord"
begin

section \<open>The trainer script of nbclassify (\<^verbatim>\<open>src/script/trainer.py\<close>)\<close>

text \<open>
  The script is Python 2. Its numbers (\<^verbatim>\<open>neg\<close>, \<^verbatim>\<open>pos\<close>, the entries of a codeword,
  the outputs of the network, the error bound) are modelled as \<^typ>\<open>real\<close>, with exact
  arithmetic. Class names are values of any linearly ordered type; for Python's strings
  that order is the lexicographic one on \<^typ>\<open>string\<close>. A dictionary is an association
  list with distinct keys; the order of the list stands for the iteration order of the
  dictionary, which Python 2 leaves open.
\<close>

subsection \<open>Exceptions\<close>

datatype py_error =
    ValueError
  | IndexError
  | RuntimeError
  | AssertionError
  | UnboundLocalError
  | IOError
  | TypeError
  | KeyError
  | AttributeError

subsection \<open>\<^verbatim>\<open>Common.get_codewords\<close>\<close>

text \<open>
  \<^verbatim>\<open>
  def get_codewords(self, classes, neg=-1, pos=1):
      n =  len(classes)
      codewords = {}
      for i, class_ in enumerate(sorted(classes)):
          cw = [neg] * n
          cw[i] = pos
          codewords[class_] = cw
      return codewords
  \<close>
  The body of the loop is \<open>codewords_step\<close>; \<^const>\<open>AList.update\<close> is the assignment
  \<^verbatim>\<open>codewords[class_] = cw\<close>.
\<close>

definition codewords_step ::
  "nat \<Rightarrow> real \<Rightarrow> real \<Rightarrow> nat \<times> 'c \<Rightarrow> ('c \<times> real list) list \<Rightarrow> ('c \<times> real list) list" where
  "codewords_step n neg pos = (\<lambda>(i, class') codewords.
     AList.update class' ((replicate n neg)[i := pos]) codewords)"

definition get_codewords ::
  "('c::linorder) list \<Rightarrow> real \<Rightarrow> real \<Rightarrow> ('c \<times> real list) list" where
  "get_codewords classes neg pos =
     (let n = length classes
      in fold (codewords_step n neg pos) (enumerate 0 (sort classes)) [])"

subsection \<open>\<^verbatim>\<open>Common.get_classification\<close>\<close>

text \<open>
  \<^verbatim>\<open>
  def get_classification(self, codewords, codeword, error=0.01):
      if len(codewords) != len(codeword):
          raise ValueError("Lenth of `codewords` must be equal to `codeword`")
      classes = []
      for cls, cw in codewords.items():
          for i, code in enumerate(cw):
              if code == 1.0 and (code - codeword[i])**2 < error:
                  classes.append((codeword[i], cls))
      classes = [x[1] for x in sorted(classes, reverse=True)]
      return classes
  \<close>
  \<open>scan_codeword\<close> is the inner loop and \<open>scan_codewords\<close> the outer one; both carry the
  list \<^verbatim>\<open>classes\<close>. The read \<^verbatim>\<open>codeword[i]\<close> happens only after \<^verbatim>\<open>code == 1.0\<close> has
  held, and raises IndexError when \<^verbatim>\<open>i\<close> is not an index of \<^verbatim>\<open>codeword\<close>. The pairs are
  compared as Python compares tuples, first by the number and then by the class name, so
  equal pairs are the same pair and \<^verbatim>\<open>sorted(classes, reverse=True)\<close> is the ascending
  sort read backwards.
\<close>

fun scan_codeword ::
  "'c \<Rightarrow> real list \<Rightarrow> real \<Rightarrow> (nat \<times> real) list \<Rightarrow> (real \<times> 'c) list \<Rightarrow> py_error + (real \<times> 'c) list" where
  "scan_codeword cls codeword error [] classes = Inr classes"
| "scan_codeword cls codeword error ((i, code) # rest) classes =
     (if code = 1 then
        (if i < length codeword then
           (if (code - codeword ! i)\<^sup>2 < error
            then scan_codeword cls codeword error rest (classes @ [(codeword ! i, cls)])
            else scan_codeword cls codeword error rest classes)
         else Inl IndexError)
      else scan_codeword cls codeword error rest classes)"

fun scan_codewords ::
  "real list \<Rightarrow> real \<Rightarrow> ('c \<times> real list) list \<Rightarrow> (real \<times> 'c) list \<Rightarrow> py_error + (real \<times> 'c) list" where
  "scan_codewords codeword error [] classes = Inr classes"
| "scan_codewords codeword error ((cls, cw) # items) classes =
     (case scan_codeword cls codeword error (enumerate 0 cw) classes of
        Inl e \<Rightarrow> Inl e
      | Inr classes' \<Rightarrow> scan_codewords codeword error items classes')"

definition get_classification ::
  "(('c::linorder) \<times> real list) list \<Rightarrow> real list \<Rightarrow> real \<Rightarrow> py_error + 'c list" where
  "get_classification codewords codeword error =
     (if length codewords \<noteq> length codeword then Inl ValueError
      else case scan_codewords codeword error codewords [] of
             Inl e \<Rightarrow> Inl e
           | Inr classes \<Rightarrow> Inr (map snd (rev (sort classes))))"

subsection \<open>Strings\<close>

text \<open>
  \<open>join\<close> is \<^verbatim>\<open>sep.join(items)\<close>, \<open>format_d\<close> is the format \<^verbatim>\<open>%d\<close> (\<open>decimal\<close> writes a
  natural number), and \<open>os_path_join\<close> is \<^verbatim>\<open>os.path.join\<close> of two components on POSIX.
\<close>

definition tab :: string where
  "tab = [CHR 0x09]"

fun join :: "string \<Rightarrow> string list \<Rightarrow> string" where
  "join sep [] = []"
| "join sep [x] = x"
| "join sep (x # y # ys) = x @ sep @ join sep (y # ys)"

definition digit_char :: "nat \<Rightarrow> char" where
  "digit_char d = ''0123456789'' ! d"

fun decimal :: "nat \<Rightarrow> string" where
  "decimal n =
     (if n < 10 then [digit_char n] else decimal (n div 10) @ [digit_char (n mod 10)])"

declare decimal.simps [simp del]

definition format_d :: "int \<Rightarrow> string" where
  "format_d i = (if 0 \<le> i then decimal (nat i) else CHR ''-'' # decimal (nat (- i)))"

definition os_path_join :: "string \<Rightarrow> string \<Rightarrow> string" where
  "os_path_join a b =
     (if b \<noteq> [] \<and> hd b = CHR ''/'' then b
      else if a = [] \<or> last a = CHR ''/'' then a @ b
      else a @ ''/'' @ b)"

subsection \<open>The configuration\<close>

text \<open>
  The YAML configuration is read into nested \<^verbatim>\<open>nbc.Struct\<close> objects. The model keeps the
  options that the trainer reads: \<^verbatim>\<open>class_query\<close> (with its keys \<^verbatim>\<open>class\<close> and \<^verbatim>\<open>where\<close>
  and any other key it may hold), \<^verbatim>\<open>features\<close> and \<^verbatim>\<open>data.dependent_prefix\<close>. An option
  that is absent is \<^const>\<open>None\<close>. The features are listed in the order in which
  \<^verbatim>\<open>iteritems\<close> yields them; each carries the arguments that \<^verbatim>\<open>__make_header\<close> reads for it.
\<close>

datatype output_function =
    mean_sd
  | of_color_histograms "(string \<times> int list) list"
  | other_function string

datatype feature =
    color_histograms "(string \<times> int list) list"
  | color_bgr_means "int option"
  | shape_outline "int option"
  | shape_360 "int option" "output_function list option"
  | other_feature string

record query =
  cq_class :: "string option"
  cq_where :: "(string \<times> string) list option"
  cq_other_keys :: "string list"

record config =
  class_query :: "query option"
  features :: "feature list option"
  dependent_prefix :: "string option"

definition OUTPUT_PREFIX :: string where
  "OUTPUT_PREFIX = ''OUT:''"

subsection \<open>The checks of \<^verbatim>\<open>query_images_classes\<close> and \<^verbatim>\<open>query_classes\<close>\<close>

text \<open>
  Both methods start with
  \<^verbatim>\<open>
  if 'class' not in query:
      raise ValueError("The query is missing the 'class' key")
  for key in vars(query):
      if key not in ('where', 'class'):
          raise ValueError("Unknown key '%s' in query" % key)
  \<close>
  and then build a query for the ORM. The rows that the database returns for that query
  are an argument of the functions below.
\<close>

definition check_query :: "query \<Rightarrow> py_error + unit" where
  "check_query q =
     (if cq_class q = None then Inl ValueError
      else if cq_other_keys q \<noteq> [] then Inl ValueError
      else Inr ())"

subsection \<open>\<^verbatim>\<open>MakeTrainData.__make_header\<close>\<close>

text \<open>
  \<open>collect f xs\<close> is a loop over \<open>xs\<close> whose body appends the columns \<open>f x\<close> to a list, or
  raises. \<open>py_range_360 step\<close> is \<^verbatim>\<open>range(0, 360, step)\<close>, which raises ValueError for a
  step of zero. With no \<^verbatim>\<open>output_functions\<close> in the arguments of \<^verbatim>\<open>shape_360\<close>, the default
  is the dictionary \<^verbatim>\<open>{'mean_sd': 1}\<close>, and \<^verbatim>\<open>vars\<close> of a dictionary raises TypeError.
\<close>

fun collect :: "('a \<Rightarrow> py_error + 'b list) \<Rightarrow> 'a list \<Rightarrow> py_error + 'b list" where
  "collect f [] = Inr []"
| "collect f (x # xs) =
     (case f x of
        Inl e \<Rightarrow> Inl e
      | Inr ys \<Rightarrow> (case collect f xs of Inl e \<Rightarrow> Inl e | Inr zs \<Rightarrow> Inr (ys @ zs)))"

definition py_range_360 :: "int \<Rightarrow> py_error + int list" where
  "py_range_360 step =
     (if step = 0 then Inl ValueError
      else if step < 0 then Inr []
      else Inr (map (\<lambda>k. k * step) [0..359 div step]))"

definition histogram_columns :: "string \<times> int list \<Rightarrow> py_error + string list" where
  "histogram_columns = (\<lambda>(colorspace, bins).
     collect (\<lambda>(ch, n).
        if n < 1 then Inr []
        else if ch < length colorspace
        then Inr (map (\<lambda>i. [colorspace ! ch] @ '':'' @ format_d i) [1..n])
        else Inl IndexError)
       (enumerate 0 bins))"

definition bgr_means_columns :: "int \<Rightarrow> string list" where
  "bgr_means_columns bins =
     concat (map (\<lambda>i.
       concat (map (\<lambda>axis.
         map (\<lambda>ch. ''BGR_MN:'' @ format_d i @ ''.'' @ axis @ ''.'' @ [ch]) ''BGR'')
         [''HOR'', ''VER''])) [1..bins])"

definition outline_columns :: "int \<Rightarrow> string list" where
  "outline_columns n =
     concat (map (\<lambda>i. [''OUTLINE:'' @ format_d i @ ''.X'',
                        ''OUTLINE:'' @ format_d i @ ''.Y'']) [1..n])"

definition histogram_360_columns :: "int \<Rightarrow> string \<times> int list \<Rightarrow> py_error + string list" where
  "histogram_360_columns i = (\<lambda>(cs, bins).
     collect (\<lambda>(j, color).
        if j < length bins
        then Inr (map (\<lambda>k. ''360:'' @ format_d i @ ''.'' @ [color] @ '':'' @ format_d k)
                    [1..bins ! j])
        else Inl IndexError)
       (enumerate 0 cs))"

fun output_function_columns :: "int \<Rightarrow> output_function \<Rightarrow> py_error + string list" where
  "output_function_columns step mean_sd =
     (case py_range_360 step of
        Inl e \<Rightarrow> Inl e
      | Inr is \<Rightarrow> Inr (concat (map (\<lambda>i. [''360:'' @ format_d i @ ''.MN'',
                                          ''360:'' @ format_d i @ ''.SD'']) is)))"
| "output_function_columns step (of_color_histograms f_args) =
     (case py_range_360 step of
        Inl e \<Rightarrow> Inl e
      | Inr is \<Rightarrow> collect (\<lambda>i. collect (histogram_360_columns i) f_args) is)"
| "output_function_columns step (other_function f_name) = Inr []"

fun feature_columns :: "feature \<Rightarrow> py_error + string list" where
  "feature_columns (color_histograms args) = collect histogram_columns args"
| "feature_columns (color_bgr_means bins) =
     Inr (bgr_means_columns (case bins of None \<Rightarrow> 20 | Some b \<Rightarrow> b))"
| "feature_columns (shape_outline k) =
     Inr (outline_columns (case k of None \<Rightarrow> 15 | Some n \<Rightarrow> n))"
| "feature_columns (shape_360 step output_functions) =
     (case output_functions of
        None \<Rightarrow> Inl TypeError
      | Some fs \<Rightarrow>
          collect (output_function_columns (case step of None \<Rightarrow> 1 | Some s \<Rightarrow> s)) fs)"
| "feature_columns (other_feature name) = Inr []"

definition make_header :: "config \<Rightarrow> nat \<Rightarrow> py_error + string list \<times> string list" where
  "make_header conf n_out =
     (case features conf of
        None \<Rightarrow> Inl ValueError
      | Some fs \<Rightarrow>
          (case collect feature_columns fs of
             Inl e \<Rightarrow> Inl e
           | Inr data \<Rightarrow>
               (let out_prefix = (case dependent_prefix conf of
                                    None \<Rightarrow> OUTPUT_PREFIX | Some p \<Rightarrow> p);
                    out = map (\<lambda>i. out_prefix @ decimal i) [1..<n_out + 1]
                in Inr (data, out))))"

subsection \<open>Collaborators outside the script\<close>

text \<open>
  The feature extraction, the neural network and the rendering of floating point numbers
  are outside the script. They are arguments of the model:
  \<^item> \<open>set_image path\<close> is the exception that \<^verbatim>\<open>phenotyper.set_image(path)\<close> followed by
    \<^verbatim>\<open>phenotyper.set_config(config)\<close> raises, if any;
  \<^item> \<open>make_phenotype path\<close> is what \<^verbatim>\<open>phenotyper.make()\<close> returns or raises for that image;
  \<^item> \<open>around6\<close> is \<^verbatim>\<open>np.around(x, 6)\<close>, \<open>str_of\<close> is \<^verbatim>\<open>astype(str)\<close> on one number and \<open>format3\<close>
    is the format \<^verbatim>\<open>%.3f\<close>.
  A network is the function \<^verbatim>\<open>ann.run\<close> from inputs to outputs.
\<close>

record external =
  set_image :: "string \<Rightarrow> py_error option"
  make_phenotype :: "string \<Rightarrow> py_error + real list"
  around6 :: "real \<Rightarrow> real"
  str_of :: "real \<Rightarrow> string"
  format3 :: "real \<Rightarrow> string"

type_synonym ann = "real list \<Rightarrow> real list"

type_synonym files = "string \<rightharpoonup> string list"

subsection \<open>\<^verbatim>\<open>nbc.TrainData\<close>\<close>

text \<open>
  Modelled from the spec: the class \<^verbatim>\<open>nbc.TrainData\<close> of the package \<^verbatim>\<open>nbclassify\<close> is not
  among the sources. The spec speaks of fixed-width feature vectors with a codeword each;
  the model is a container of samples (label, input, output) made for \<open>num_input\<close> inputs and
  \<open>num_output\<close> outputs: \<^verbatim>\<open>append\<close> stores a sample at the end, iteration yields the stored
  samples in order, \<^verbatim>\<open>round_input\<close> rounds every input value, and \<^verbatim>\<open>finalize\<close> leaves the
  samples as they are.
\<close>

record train_data =
  num_input :: nat
  num_output :: nat
  samples :: "(string option \<times> real list \<times> real list) list"

definition TrainData :: "nat \<Rightarrow> nat \<Rightarrow> train_data" where
  "TrainData n_in n_out = \<lparr>num_input = n_in, num_output = n_out, samples = []\<rparr>"

definition td_append :: "train_data \<Rightarrow> real list \<Rightarrow> real list \<Rightarrow> string option \<Rightarrow> train_data" where
  "td_append td input output label = td\<lparr>samples := samples td @ [(label, input, output)]\<rparr>"

definition td_finalize :: "train_data \<Rightarrow> train_data" where
  "td_finalize td = td"

definition td_round_input :: "(real \<Rightarrow> real) \<Rightarrow> train_data \<Rightarrow> train_data" where
  "td_round_input r td =
     td\<lparr>samples := map (\<lambda>(label, input, output). (label, map r input, output)) (samples td)\<rparr>"

subsection \<open>\<^verbatim>\<open>MakeTrainData.export\<close>\<close>

text \<open>
  \<open>export_images\<close> is the loop over the images of the query (lines 392 to 409): an image
  that cannot be read is skipped, a phenotype of the wrong length fails the assertion.
  \<open>export_rows\<close> is the loop that writes the data rows (lines 417 to 422); joining a row
  whose label is \<^verbatim>\<open>None\<close> would raise TypeError. \<open>export\<close> returns the exception raised, if
  any, and the files. A file is the list of its lines, each written with its newline.
  The calls of \<^verbatim>\<open>logging\<close> and the list \<^verbatim>\<open>failed\<close>, which is only logged, are left out.
\<close>

fun export_images ::
  "external \<Rightarrow> string \<Rightarrow> nat \<Rightarrow> (string \<times> real list) list \<Rightarrow> (string \<times> string) list \<Rightarrow>
   train_data \<Rightarrow> py_error + train_data" where
  "export_images ext base_path n_data codewords [] training_data = Inr training_data"
| "export_images ext base_path n_data codewords ((im_path, im_class) # images) training_data =
     (let im_path_real = os_path_join base_path im_path
      in case set_image ext im_path_real of
           Some e \<Rightarrow> export_images ext base_path n_data codewords images training_data
         | None \<Rightarrow>
             (case make_phenotype ext im_path_real of
                Inl e \<Rightarrow> Inl e
              | Inr phenotype \<Rightarrow>
                  if length phenotype \<noteq> n_data then Inl AssertionError
                  else (case map_of codewords im_class of
                          None \<Rightarrow> Inl KeyError
                        | Some cw \<Rightarrow>
                            export_images ext base_path n_data codewords images
                              (td_append training_data phenotype cw (Some im_path)))))"

fun export_rows ::
  "external \<Rightarrow> (string option \<times> real list \<times> real list) list \<Rightarrow> string list \<Rightarrow>
   py_error option \<times> string list" where
  "export_rows ext [] lines = (None, lines)"
| "export_rows ext ((label, input, output) # rest) lines =
     (case label of
        None \<Rightarrow> (Some TypeError, lines)
      | Some l \<Rightarrow>
          (let row = [l] @ map (str_of ext) input @ map (str_of ext) output
           in export_rows ext rest (lines @ [join tab row])))"

definition export ::
  "external \<Rightarrow> config \<Rightarrow> string \<Rightarrow> (string \<times> string) list \<Rightarrow> string \<Rightarrow> files \<Rightarrow>
   py_error option \<times> files" where
  "export ext conf base_path images filename fs =
     (case class_query conf of
        None \<Rightarrow> (Some RuntimeError, fs)
      | Some cq \<Rightarrow>
          (case check_query cq of
             Inl e \<Rightarrow> (Some e, fs)
           | Inr _ \<Rightarrow>
               if length images = 0 then (None, fs)
               else
                 (let classes = remdups (map snd images);
                      codewords = get_codewords classes (- 1) 1
                  in case make_header conf (length classes) of
                       Inl e \<Rightarrow> (Some e, fs)
                     | Inr (header_data, header_out) \<Rightarrow>
                         (let header = [''ID''] @ header_data @ header_out;
                              lines = [join tab header]
                          in case export_images ext base_path (length header_data) codewords
                                    images (TrainData (length header_data) (length classes)) of
                               Inl e \<Rightarrow> (Some e, fs(filename \<mapsto> lines))
                             | Inr training_data \<Rightarrow>
                                 (let rounded = td_round_input (around6 ext)
                                                  (td_finalize training_data);
                                      (raised, lines') = export_rows ext (samples rounded) lines
                                  in (raised, fs(filename \<mapsto> lines')))))))"

subsection \<open>\<^verbatim>\<open>TestAnn.export_results\<close>\<close>

text \<open>
  A \<^verbatim>\<open>TestAnn\<close> object holds the configuration, and the network and the test data once
  \<^verbatim>\<open>test\<close> has loaded them (both are \<^verbatim>\<open>None\<close> before). \<open>tally\<close> holds the local variables
  of the loop over the test data (lines 613 to 646) and the lines written so far;
  \<^verbatim>\<open>fraction\<close> has no value before the first sample. \<open>results_loop\<close> is that loop. The
  rows of the class query (photo id, class name) are the argument \<open>rows\<close>.
\<close>

record test_ann =
  ta_config :: config
  ta_test_data :: "train_data option"
  ta_ann :: "ann option"

record tally =
  total :: nat
  correct :: nat
  fraction :: "real option"
  written :: "string list"

fun results_loop ::
  "ann option \<Rightarrow> (string \<times> real list) list \<Rightarrow> real \<Rightarrow>
   (string option \<times> real list \<times> real list) list \<Rightarrow> tally \<Rightarrow> py_error option \<times> tally" where
  "results_loop net codewords error [] t = (None, t)"
| "results_loop net codewords error ((label, input, output) # rest) t =
     (let t1 = t\<lparr>total := total t + 1\<rparr>;
          row = [case label of None \<Rightarrow> [] | Some l \<Rightarrow> l]
      in if length codewords \<noteq> length output then (Some RuntimeError, t1)
         else
           (case get_classification codewords output error of
              Inl e \<Rightarrow> (Some e, t1)
            | Inr class_expected \<Rightarrow>
                if length class_expected \<noteq> 1 then (Some AssertionError, t1)
                else
                  (case net of
                     None \<Rightarrow> (Some AttributeError, t1)
                   | Some run \<Rightarrow>
                       (case get_classification codewords (run input) error of
                          Inl e \<Rightarrow> (Some e, t1)
                        | Inr class_ann \<Rightarrow>
                            (let matched = (length class_ann > 0 \<and>
                                            hd class_ann = hd class_expected);
                                 row' = row @ [hd class_expected] @ [join '', '' class_ann] @
                                          [if matched then ''+'' else ''-''];
                                 correct' = (if matched then correct t1 + 1 else correct t1);
                                 t2 = t1\<lparr>correct := correct',
                                         written := written t1 @ [join tab row'],
                                         fraction := Some (real correct' / real (total t1))\<rparr>
                             in results_loop net codewords error rest t2)))))"

definition export_results ::
  "external \<Rightarrow> test_ann \<Rightarrow> (nat \<times> string) list \<Rightarrow> string \<Rightarrow> real \<Rightarrow> files \<Rightarrow>
   py_error option \<times> files" where
  "export_results ext self rows filename error fs =
     (case ta_test_data self of
        None \<Rightarrow> (Some RuntimeError, fs)
      | Some test_data \<Rightarrow>
          (case class_query (ta_config self) of
             None \<Rightarrow> (Some RuntimeError, fs)
           | Some cq \<Rightarrow>
               (case check_query cq of
                  Inl e \<Rightarrow> (Some e, fs)
                | Inr _ \<Rightarrow>
                    (let classes = map snd rows
                     in if length classes = 0 then (Some RuntimeError, fs)
                        else
                          (let header = join tab [''ID'', ''Class'', ''Classification'', ''Match''];
                               codewords = get_codewords classes (- 1) 1;
                               (raised, t) = results_loop (ta_ann self) codewords error
                                   (samples test_data)
                                   \<lparr>total = 0, correct = 0, fraction = None, written = [header]\<rparr>
                           in case raised of
                                Some e \<Rightarrow> (Some e, fs(filename \<mapsto> written t))
                              | None \<Rightarrow>
                                  (case fraction t of
                                     None \<Rightarrow> (Some UnboundLocalError, fs(filename \<mapsto> written t))
                                   | Some f \<Rightarrow>
                                       (None, fs(filename \<mapsto> written t @
                                          [join tab ['''', '''', '''', format3 ext f]]))))))))"

subsection \<open>\<^verbatim>\<open>ImageClassifier\<close>\<close>

text \<open>
  The constructor loads the network (\<^verbatim>\<open>set_ann\<close> raises IOError when the file does not
  exist; \<open>ann_file\<close> is the network stored in the file, if the file exists), then takes the
  class query from the configuration, checks it and stores the class names of the rows
  that the database returns. The check of the configuration in \<^verbatim>\<open>Common.set_config\<close>
  concerns the option \<^verbatim>\<open>preprocess.segmentation.output_folder\<close> only and is left out.
\<close>

record image_classifier =
  ic_config :: config
  ic_ann :: ann
  ic_classes :: "string list"

definition ImageClassifier ::
  "config \<Rightarrow> ann option \<Rightarrow> (nat \<times> string) list \<Rightarrow> py_error + image_classifier" where
  "ImageClassifier conf ann_file rows =
     (case ann_file of
        None \<Rightarrow> Inl IOError
      | Some net \<Rightarrow>
          (case class_query conf of
             None \<Rightarrow> Inl RuntimeError
           | Some cq \<Rightarrow>
               (case check_query cq of
                  Inl e \<Rightarrow> Inl e
                | Inr _ \<Rightarrow> Inr \<lparr>ic_config = conf, ic_ann = net, ic_classes = map snd rows\<rparr>)))"

definition classify ::
  "external \<Rightarrow> image_classifier \<Rightarrow> string \<Rightarrow> real \<Rightarrow> py_error + string list" where
  "classify ext self image_path error =
     (case set_image ext image_path of
        Some e \<Rightarrow> Inl e
      | None \<Rightarrow>
          (case make_phenotype ext image_path of
             Inl e \<Rightarrow> Inl e
           | Inr phenotype \<Rightarrow>
               (let codeword = ic_ann self phenotype;
                    codewords = get_codewords (ic_classes self) (- 1) 1
                in get_classification codewords codeword error)))"

subsection \<open>\<^verbatim>\<open>main\<close>\<close>

text \<open>
  What leaves \<^verbatim>\<open>main\<close> is always an exception, since its last statement is \<^verbatim>\<open>sys.exit()\<close>.
  \<^verbatim>\<open>SystemExit\<close> and \<^verbatim>\<open>KeyboardInterrupt\<close> are no subclasses of \<^verbatim>\<open>Exception\<close>, so the handlers
  \<^verbatim>\<open>except Exception as e\<close> of the tasks \<^verbatim>\<open>data\<close> and \<^verbatim>\<open>ann\<close> let them pass. The work of a task
  is outside \<^verbatim>\<open>main\<close>: its outcome is an argument, \<^const>\<open>None\<close> when it returns and the
  exception when it raises. For \<^verbatim>\<open>test-ann\<close>, \<open>body\<close> is the outcome of the statements up to
  \<^verbatim>\<open>tester.test\<close> and \<open>export_body\<close> that of \<^verbatim>\<open>tester.export_results\<close>; for \<^verbatim>\<open>classify\<close>,
  \<open>class'\<close> is the list that \<^verbatim>\<open>classifier.classify\<close> returns. The log holds the records that
  \<^verbatim>\<open>main\<close> itself writes.
\<close>

datatype exit_arg = NoArg | ExitCode int | ExitMessage string

datatype py_exception =
    Exception py_error
  | SystemExit exit_arg
  | KeyboardInterrupt

datatype log_record = LogError py_error | LogInfo string

datatype subcommand = data | ann | test_ann | classify_image

record args =
  arg_output :: "string option"
  arg_db :: "string option"

definition main ::
  "subcommand \<Rightarrow> args \<Rightarrow> py_exception option \<Rightarrow> py_exception option \<Rightarrow> string list \<Rightarrow>
   log_record list \<Rightarrow> py_exception \<times> log_record list" where
  "main cmd a body export_body class' logged =
     (case cmd of
        data \<Rightarrow>
          (case body of
             Some (Exception e) \<Rightarrow> (Exception e, logged @ [LogError e])
           | Some other \<Rightarrow> (other, logged)
           | None \<Rightarrow> (SystemExit NoArg, logged))
      | ann \<Rightarrow>
          (case body of
             Some (Exception e) \<Rightarrow> (SystemExit NoArg, logged @ [LogError e])
           | Some other \<Rightarrow> (other, logged)
           | None \<Rightarrow> (SystemExit NoArg, logged))
      | test_ann \<Rightarrow>
          (case body of
             Some raised \<Rightarrow> (raised, logged)
           | None \<Rightarrow>
               if arg_output a \<noteq> None \<and> arg_output a \<noteq> Some []
               then
                 (if arg_db a = None \<or> arg_db a = Some []
                  then (SystemExit (ExitMessage ''Option --output must be used together with --db''), logged)
                  else (case export_body of
                          Some raised \<Rightarrow> (raised, logged)
                        | None \<Rightarrow> (SystemExit NoArg, logged)))
               else (SystemExit NoArg, logged))
      | classify_image \<Rightarrow>
          (case body of
             Some raised \<Rightarrow> (raised, logged)
           | None \<Rightarrow>
               (SystemExit NoArg,
                logged @ [LogInfo (''Image is classified as '' @ join '', '' class')])))"

subsection \<open>Auxiliary notions\<close>

text \<open>
  \<open>hits\<close> lists, for one entry of the dictionary, the pairs that the inner loop of
  \<^verbatim>\<open>get_classification\<close> appends: one pair for each position at which the stored codeword
  is 1 and the squared distance of the output from 1 is below the error bound.
  \<open>ones_in_range\<close> says that no such position lies beyond the output vector, so that
  no read \<^verbatim>\<open>codeword[i]\<close> raises.
\<close>

definition hits :: "real list \<Rightarrow> real \<Rightarrow> 'c \<times> real list \<Rightarrow> (real \<times> 'c) list" where
  "hits codeword error = (\<lambda>(cls, cw).
     map (\<lambda>(i, code). (codeword ! i, cls))
       (filter (\<lambda>(i, code). code = 1 \<and> (1 - codeword ! i)\<^sup>2 < error) (enumerate 0 cw)))"

definition ones_in_range :: "real list \<Rightarrow> ('c \<times> real list) list \<Rightarrow> bool" where
  "ones_in_range codeword codewords =
     (\<forall>(cls, cw) \<in> set codewords. \<forall>i<length cw. cw ! i = 1 \<longrightarrow> i < length codeword)"


text \<open>
  \<open>result_row net codewords error sample row\<close> says that \<open>row\<close> is the row of the table of
  results for the sample: its label, the one class decoded from its target codeword, the
  classes decoded from the output of the network, and the mark of a match. \<open>matches\<close>
  counts the rows marked as a match.
\<close>

definition result_row ::
  "ann \<Rightarrow> (string \<times> real list) list \<Rightarrow> real \<Rightarrow> string option \<times> real list \<times> real list \<Rightarrow>
   string list \<Rightarrow> bool" where
  "result_row net codewords error = (\<lambda>(label, input, output) row.
     \<exists>expected class_ann.
       get_classification codewords output error = Inr [expected] \<and>
       get_classification codewords (net input) error = Inr class_ann \<and>
       row = [case label of None \<Rightarrow> [] | Some l \<Rightarrow> l, expected, join '', '' class_ann,
              if class_ann \<noteq> [] \<and> hd class_ann = expected then ''+'' else ''-''])"

definition matches :: "string list list \<Rightarrow> nat" where
  "matches table = length (filter (\<lambda>row. row ! 3 = ''+'') table)"

section \<open>Properties of the codewords\<close>

subsection \<open>The loop of \<^verbatim>\<open>get_codewords\<close>\<close>

lemma codewords_fold_snoc:
  "fold (codewords_step n neg pos) (enumerate 0 (xs @ [x])) [] =
     AList.update x ((replicate n neg)[length xs := pos])
       (fold (codewords_step n neg pos) (enumerate 0 xs) [])"
  by (simp add: enumerate_append_eq codewords_step_def)

lemma codewords_fold_keys:
  "fst ` set (fold (codewords_step n neg pos) (enumerate 0 xs) []) = set xs"
proof (induction xs rule: rev_induct)
  case Nil
  show ?case by simp
next
  case (snoc x xs)
  show ?case
    unfolding codewords_fold_snoc by (simp add: dom_update snoc.IH)
qed

lemma codewords_fold_distinct:
  "distinct (map fst (fold (codewords_step n neg pos) (enumerate 0 xs) []))"
proof (induction xs rule: rev_induct)
  case Nil
  show ?case by simp
next
  case (snoc x xs)
  show ?case
    unfolding codewords_fold_snoc by (simp add: distinct_update snoc.IH)
qed

lemma codewords_fold_lookup:
  "map_of (fold (codewords_step n neg pos) (enumerate 0 xs) []) c = Some cw \<longleftrightarrow>
     (\<exists>i<length xs. xs ! i = c \<and> (\<forall>j<length xs. i < j \<longrightarrow> xs ! j \<noteq> c) \<and>
        cw = (replicate n neg)[i := pos])"
proof (induction xs arbitrary: cw rule: rev_induct)
  case Nil
  show ?case by simp
next
  case (snoc x xs)
  let ?al = "fold (codewords_step n neg pos) (enumerate 0 xs) []"
  have upd: "map_of (fold (codewords_step n neg pos) (enumerate 0 (xs @ [x])) []) =
      (map_of ?al)(x \<mapsto> (replicate n neg)[length xs := pos])"
    unfolding codewords_fold_snoc by (simp add: update_conv')
  show ?case
  proof (cases "c = x")
    case True
    have "(\<exists>i<length (xs @ [x]). (xs @ [x]) ! i = c \<and>
            (\<forall>j<length (xs @ [x]). i < j \<longrightarrow> (xs @ [x]) ! j \<noteq> c) \<and>
            cw = (replicate n neg)[i := pos]) \<longleftrightarrow> cw = (replicate n neg)[length xs := pos]"
      (is "?L \<longleftrightarrow> ?R")
    proof
      assume ?L
      then obtain i where i: "i < length (xs @ [x])"
        and last: "\<forall>j<length (xs @ [x]). i < j \<longrightarrow> (xs @ [x]) ! j \<noteq> c"
        and cw: "cw = (replicate n neg)[i := pos]" by blast
      have "i = length xs"
      proof (rule ccontr)
        assume "i \<noteq> length xs"
        with i have "i < length xs" by simp
        with last[rule_format, of "length xs"] have "(xs @ [x]) ! length xs \<noteq> c" by simp
        with True show False by simp
      qed
      with cw show ?R by simp
    next
      assume ?R
      with True show ?L by (intro exI[of _ "length xs"]) simp
    qed
    with True upd show ?thesis by auto
  next
    case False
    have "(\<exists>i<length (xs @ [x]). (xs @ [x]) ! i = c \<and>
            (\<forall>j<length (xs @ [x]). i < j \<longrightarrow> (xs @ [x]) ! j \<noteq> c) \<and>
            cw = (replicate n neg)[i := pos]) \<longleftrightarrow>
          (\<exists>i<length xs. xs ! i = c \<and> (\<forall>j<length xs. i < j \<longrightarrow> xs ! j \<noteq> c) \<and>
            cw = (replicate n neg)[i := pos])"
      (is "?L \<longleftrightarrow> ?R")
    proof
      assume ?L
      then obtain i where i: "i < length (xs @ [x])" and at: "(xs @ [x]) ! i = c"
        and last: "\<forall>j<length (xs @ [x]). i < j \<longrightarrow> (xs @ [x]) ! j \<noteq> c"
        and cw: "cw = (replicate n neg)[i := pos]" by blast
      from i at False have i': "i < length xs"
        by (cases "i = length xs") auto
      with at have at': "xs ! i = c" by (simp add: nth_append)
      have "\<forall>j<length xs. i < j \<longrightarrow> xs ! j \<noteq> c"
      proof (intro allI impI)
        fix j assume j: "j < length xs" "i < j"
        with last[rule_format, of j] have "(xs @ [x]) ! j \<noteq> c" by simp
        with j show "xs ! j \<noteq> c" by (simp add: nth_append)
      qed
      with i' at' cw show ?R by blast
    next
      assume ?R
      then obtain i where i: "i < length xs" and at: "xs ! i = c"
        and last: "\<forall>j<length xs. i < j \<longrightarrow> xs ! j \<noteq> c"
        and cw: "cw = (replicate n neg)[i := pos]" by blast
      have "\<forall>j<length (xs @ [x]). i < j \<longrightarrow> (xs @ [x]) ! j \<noteq> c"
      proof (intro allI impI)
        fix j assume j: "j < length (xs @ [x])" "i < j"
        show "(xs @ [x]) ! j \<noteq> c"
        proof (cases "j = length xs")
          case True
          with False show ?thesis by simp
        next
          case F: False
          with j have "j < length xs" by simp
          with last[rule_format, of j] j show ?thesis by (simp add: nth_append)
        qed
      qed
      moreover from i at have "(xs @ [x]) ! i = c" by (simp add: nth_append)
      moreover from i have "i < length (xs @ [x])" by simp
      ultimately show ?L using cw by blast
    qed
    with False upd snoc.IH show ?thesis by simp
  qed
qed

lemma get_codewords_same_mset:
  "mset xs = mset ys \<Longrightarrow> get_codewords xs neg pos = get_codewords ys neg pos"
proof -
  assume eq: "mset xs = mset ys"
  have "mset (sort ys) = mset xs" using eq by simp
  then have "sort xs = sort ys" by (rule properties_for_sort) simp
  moreover have "length xs = length ys" using eq by (rule mset_eq_length)
  ultimately show ?thesis by (simp add: get_codewords_def)
qed

subsection \<open>The shape of the codewords\<close>

text \<open>
  Claim C1. For every collection \<open>classes\<close> of class names, \<^verbatim>\<open>get_codewords(classes, neg, pos)\<close>
  is a dictionary with one entry for each distinct class name and no other entry. The
  value stored for a class \<open>c\<close> is a list of length \<^verbatim>\<open>len(classes)\<close> that holds \<open>pos\<close> at
  an index \<open>i\<close> at which the sorted class names hold \<open>c\<close> (the last such index when \<open>c\<close>
  occurs more than once) and \<open>neg\<close> at every other index.
\<close>

theorem get_codewords_one_hot:
  "distinct (map fst (get_codewords classes neg pos)) \<and>
   fst ` set (get_codewords classes neg pos) = set classes \<and>
   (\<forall>c\<in>set classes. \<exists>i cw.
      i < length classes \<and> sort classes ! i = c \<and>
      (\<forall>j<length classes. i < j \<longrightarrow> sort classes ! j \<noteq> c) \<and>
      map_of (get_codewords classes neg pos) c = Some cw \<and>
      length cw = length classes \<and>
      (\<forall>j<length classes. cw ! j = (if j = i then pos else neg)))"
proof (intro conjI ballI)
  show "distinct (map fst (get_codewords classes neg pos))"
    by (simp add: get_codewords_def codewords_fold_distinct)
  show "fst ` set (get_codewords classes neg pos) = set classes"
    by (simp add: get_codewords_def codewords_fold_keys)
next
  fix c assume "c \<in> set classes"
  then have "c \<in> fst ` set (get_codewords classes neg pos)"
    by (simp add: get_codewords_def codewords_fold_keys)
  then obtain cw where cw: "map_of (get_codewords classes neg pos) c = Some cw"
    by (metis domD dom_map_of_conv_image_fst)
  then obtain i where i: "i < length classes" "sort classes ! i = c"
      "\<forall>j<length classes. i < j \<longrightarrow> sort classes ! j \<noteq> c"
      "cw = (replicate (length classes) neg)[i := pos]"
    unfolding get_codewords_def Let_def codewords_fold_lookup by auto
  have "length cw = length classes" using i(4) by simp
  moreover have "\<forall>j<length classes. cw ! j = (if j = i then pos else neg)"
    using i(1,4) by (simp add: nth_list_update)
  ultimately show "\<exists>i cw. i < length classes \<and> sort classes ! i = c \<and>
      (\<forall>j<length classes. i < j \<longrightarrow> sort classes ! j \<noteq> c) \<and>
      map_of (get_codewords classes neg pos) c = Some cw \<and>
      length cw = length classes \<and>
      (\<forall>j<length classes. cw ! j = (if j = i then pos else neg))"
    using i(1,2,3) cw by blast
qed

theorem get_codewords_one_hot_witness:
  "''a'' \<in> set [''b'', ''a'', ''c''] \<and>
   fst ` set (get_codewords [''b'', ''a'', ''c''] (- 1) 1) = {''a'', ''b'', ''c''} \<and>
   map_of (get_codewords [''b'', ''a'', ''c''] (- 1) 1) ''a'' = Some [1, - 1, - 1]"
  using get_codewords_one_hot [of "[''b'', ''a'', ''c'']" "- 1" 1]
  by (simp add: get_codewords_def codewords_step_def insert_commute)

subsection \<open>Dependence on the input collection\<close>

text \<open>
  Claim C9, as stated, at a concrete input: the lists \<^verbatim>\<open>['a', 'a', 'b']\<close> and \<^verbatim>\<open>['a', 'b']\<close>
  contain the same distinct class names, and their dictionaries differ (the codewords of
  the first have length 3, those of the second have length 2).
\<close>

theorem get_codewords_duplicates_counterexample:
  "set [''a'', ''a'', ''b''] = set [''a'', ''b''] \<and>
   map_of (get_codewords [''a'', ''a'', ''b''] (- 1) 1) \<noteq>
   map_of (get_codewords [''a'', ''b''] (- 1) 1)"
proof
  show "set [''a'', ''a'', ''b''] = set [''a'', ''b'']" by simp
  have "map_of (get_codewords [''a'', ''a'', ''b''] (- 1) 1) ''a'' = Some [- 1, 1, - 1]"
    by (simp add: get_codewords_def codewords_step_def)
  moreover have "map_of (get_codewords [''a'', ''b''] (- 1) 1) ''a'' = Some [1, - 1]"
    by (simp add: get_codewords_def codewords_step_def)
  ultimately show "map_of (get_codewords [''a'', ''a'', ''b''] (- 1) 1) \<noteq>
      map_of (get_codewords [''a'', ''b''] (- 1) 1)"
    by (metis list.inject option.inject one_neq_neg_one)
qed

text \<open>
  Claim C9, amended. \<^verbatim>\<open>get_codewords\<close> is a function of the multiset of class names: two
  collections that hold the same names, each the same number of times, in any order, give
  equal dictionaries. So do two duplicate-free collections of the same names.
\<close>

theorem get_codewords_multiset:
  assumes "mset classes = mset classes' \<or>
     (distinct classes \<and> distinct classes' \<and> set classes = set classes')"
  shows "get_codewords classes neg pos = get_codewords classes' neg pos"
proof -
  from assms have "mset classes = mset classes'"
    using set_eq_iff_mset_eq_distinct by blast
  then show ?thesis by (rule get_codewords_same_mset)
qed

theorem get_codewords_multiset_witness:
  "mset [''b'', ''a'', ''c''] = mset [''c'', ''b'', ''a''] \<and>
   distinct [''b'', ''a'', ''c''] \<and> distinct [''c'', ''b'', ''a''] \<and>
   set [''b'', ''a'', ''c''] = set [''c'', ''b'', ''a''] \<and>
   get_codewords [''b'', ''a'', ''c''] (- 1) 1 = get_codewords [''c'', ''b'', ''a''] (- 1) 1"
proof -
  have h: "mset [''b'', ''a'', ''c''] = mset [''c'', ''b'', ''a'']" by (simp add: ac_simps)
  have d: "distinct [''b'', ''a'', ''c''] \<and> distinct [''c'', ''b'', ''a''] \<and>
      set [''b'', ''a'', ''c''] = set [''c'', ''b'', ''a'']" by auto
  from h have "mset [''b'', ''a'', ''c''] = mset [''c'', ''b'', ''a''] \<or>
     (distinct [''b'', ''a'', ''c''] \<and> distinct [''c'', ''b'', ''a''] \<and>
      set [''b'', ''a'', ''c''] = set [''c'', ''b'', ''a''])" by (rule disjI1)
  from get_codewords_multiset [OF this, of "- 1" 1] h d show ?thesis by blast
qed

subsection \<open>The loops of \<^verbatim>\<open>get_classification\<close>\<close>

lemma scan_codeword_hits:
  "(\<And>i code. (i, code) \<in> set ics \<Longrightarrow> code = 1 \<Longrightarrow> i < length codeword) \<Longrightarrow>
   scan_codeword cls codeword error ics acc =
     Inr (acc @ map (\<lambda>(i, code). (codeword ! i, cls))
       (filter (\<lambda>(i, code). code = 1 \<and> (1 - codeword ! i)\<^sup>2 < error) ics))"
proof (induction ics arbitrary: acc)
  case Nil
  show ?case by simp
next
  case (Cons p ics)
  obtain i code where p: "p = (i, code)" by (cases p)
  have rest: "\<And>acc'. scan_codeword cls codeword error ics acc' =
     Inr (acc' @ map (\<lambda>(i, code). (codeword ! i, cls))
       (filter (\<lambda>(i, code). code = 1 \<and> (1 - codeword ! i)\<^sup>2 < error) ics))"
    by (rule Cons.IH) (rule Cons.prems, simp_all)
  have inr: "code = 1 \<Longrightarrow> i < length codeword"
    by (rule Cons.prems[of i code]) (simp_all add: p)
  show ?case
    using inr by (simp add: p rest)
qed

lemma scan_codeword_error:
  "scan_codeword cls codeword error ics acc = Inl e \<Longrightarrow> e = IndexError"
  by (induction cls codeword error ics acc rule: scan_codeword.induct)
     (simp_all split: if_splits)

lemma scan_codewords_error:
  "scan_codewords codeword error items acc = Inl e \<Longrightarrow> e = IndexError"
proof (induction items arbitrary: acc)
  case Nil
  then show ?case by simp
next
  case (Cons p items)
  obtain cls cw where p: "p = (cls, cw)" by (cases p)
  from Cons.prems show ?case
    by (auto simp: p split: sum.splits dest: scan_codeword_error Cons.IH)
qed

lemma scan_codewords_hits:
  "ones_in_range codeword items \<Longrightarrow>
   scan_codewords codeword error items acc =
     Inr (acc @ concat (map (hits codeword error) items))"
proof (induction items arbitrary: acc)
  case Nil
  show ?case by simp
next
  case (Cons p items)
  obtain cls cw where p: "p = (cls, cw)" by (cases p)
  from Cons.prems have tl: "ones_in_range codeword items"
    by (simp add: ones_in_range_def)
  have "\<And>i code. (i, code) \<in> set (enumerate 0 cw) \<Longrightarrow> code = 1 \<Longrightarrow> i < length codeword"
    using Cons.prems by (auto simp: ones_in_range_def p in_set_enumerate_eq)
  then have "scan_codeword cls codeword error (enumerate 0 cw) acc =
      Inr (acc @ hits codeword error (cls, cw))"
    unfolding hits_def prod.case by (rule scan_codeword_hits)
  then show ?case
    by (simp add: p Cons.IH[OF tl])
qed



lemma get_classification_hits:
  "length codewords = length codeword \<Longrightarrow> ones_in_range codeword codewords \<Longrightarrow>
   get_classification codewords codeword error =
     Inr (map snd (rev (sort (concat (map (hits codeword error) codewords)))))"
  by (simp add: get_classification_def scan_codewords_hits)

lemma get_classification_ValueError:
  "get_classification codewords codeword error = Inl ValueError \<longleftrightarrow>
     length codewords \<noteq> length codeword"
  by (auto simp: get_classification_def split: sum.splits dest: scan_codewords_error)

subsection \<open>Decoding a one-hot dictionary\<close>

lemma update_fresh_key:
  "k \<notin> fst ` set al \<Longrightarrow> AList.update k v al = al @ [(k, v)]"
  by (induction al) auto

lemma codewords_fold_distinct_eq:
  "distinct xs \<Longrightarrow>
   fold (codewords_step n neg pos) (enumerate 0 xs) [] =
     map (\<lambda>i. (xs ! i, (replicate n neg)[i := pos])) [0..<length xs]"
proof (induction xs rule: rev_induct)
  case Nil
  show ?case by simp
next
  case (snoc x xs)
  then have d: "distinct xs" and fresh: "x \<notin> set xs" by simp_all
  have "map (\<lambda>i. ((xs @ [x]) ! i, (replicate n neg)[i := pos])) [0..<length xs] =
        map (\<lambda>i. (xs ! i, (replicate n neg)[i := pos])) [0..<length xs]"
    by (rule map_cong) (simp_all add: nth_append)
  then have "map (\<lambda>i. ((xs @ [x]) ! i, (replicate n neg)[i := pos])) [0..<length (xs @ [x])] =
        map (\<lambda>i. (xs ! i, (replicate n neg)[i := pos])) [0..<length xs] @
          [(x, (replicate n neg)[length xs := pos])]"
    by simp
  moreover have "x \<notin> fst ` set (fold (codewords_step n neg pos) (enumerate 0 xs) [])"
    using fresh by (simp add: codewords_fold_keys)
  ultimately show ?case
    unfolding codewords_fold_snoc by (simp add: update_fresh_key snoc.IH[OF d])
qed

lemma one_hot_split:
  "i < n \<Longrightarrow> (replicate n (a::real))[i := b] = replicate i a @ b # replicate (n - Suc i) a"
  by (simp add: list_eq_iff_nth_eq nth_list_update nth_append nth_Cons')

lemma filter_enumerate_replicate:
  "filter (\<lambda>(j, code). code = (1::real) \<and> P j) (enumerate m (replicate r (- 1))) = []"
  by (auto simp: filter_empty_conv in_set_enumerate_eq)

lemma hits_one_hot:
  assumes "i < n"
  shows "hits codeword error (cls, (replicate n (- 1))[i := 1]) =
     (if (1 - codeword ! i)\<^sup>2 < error then [(codeword ! i, cls)] else [])"
  using assms
  by (simp add: hits_def one_hot_split enumerate_append_eq filter_enumerate_replicate)

lemma concat_single_index:
  "k < n \<Longrightarrow> concat (map (\<lambda>i. if i = k then [a] else []) [0..<n]) = [a]"
proof (induction n)
  case 0
  then show ?case by simp
next
  case (Suc n)
  show ?case
  proof (cases "k = n")
    case True
    have "concat (map (\<lambda>i. if i = k then [a] else []) [0..<n]) = []"
      using True by (auto simp: concat_eq_Nil_conv)
    then show ?thesis using True by simp
  next
    case False
    with Suc.prems have "k < n" by simp
    with Suc.IH False show ?thesis by simp
  qed
qed

lemma decode_one_hot:
  assumes d: "distinct xs" and k: "k < length xs" and e: "0 < error" "error \<le> 4"
  shows "get_classification
      (map (\<lambda>i. (xs ! i, (replicate (length xs) (- 1))[i := 1])) [0..<length xs])
      ((replicate (length xs) (- 1))[k := 1]) error = Inr [xs ! k]"
proof -
  let ?n = "length xs"
  let ?g = "\<lambda>i. (replicate ?n (- 1 :: real))[i := 1]"
  let ?cws = "map (\<lambda>i. (xs ! i, ?g i)) [0..<?n]"
  have len: "length ?cws = length (?g k)" by simp
  have rng: "ones_in_range (?g k) ?cws"
    by (auto simp: ones_in_range_def)
  have each: "\<And>i. i \<in> set [0..<?n] \<Longrightarrow>
      hits (?g k) error (xs ! i, ?g i) = (if i = k then [(1, xs ! k)] else [])"
    using e k by (auto simp: hits_one_hot nth_list_update)
  have "concat (map (hits (?g k) error) ?cws) =
      concat (map (\<lambda>i. hits (?g k) error (xs ! i, ?g i)) [0..<?n])"
    by (simp add: comp_def)
  also have "\<dots> = concat (map (\<lambda>i. if i = k then [(1, xs ! k)] else []) [0..<?n])"
    by (rule arg_cong[where f = concat], rule map_cong[OF refl]) (rule each)
  also have "\<dots> = [(1, xs ! k)]" using k by (rule concat_single_index)
  finally have "concat (map (hits (?g k) error) ?cws) = [(1, xs ! k)]" .
  then show ?thesis
    by (simp add: get_classification_hits[OF len rng])
qed

subsection \<open>Decoding the outputs of the network\<close>




text \<open>
  Claim C10. \<^verbatim>\<open>get_classification\<close> raises ValueError exactly when the number of entries of
  the dictionary differs from the length of the output vector. In that case the values play
  no part: every dictionary with that number of entries and every output vector of that
  length, with any error bound, gives ValueError, also where a read of the output vector
  would be out of range.
\<close>

theorem get_classification_raises_ValueError:
  "(get_classification codewords codeword error = Inl ValueError \<longleftrightarrow>
      length codewords \<noteq> length codeword) \<and>
   (length codewords \<noteq> length codeword \<longrightarrow>
      (\<forall>codewords' codeword' error'.
         length codewords' = length codewords \<and> length codeword' = length codeword \<longrightarrow>
         get_classification codewords' codeword' error' = (Inl ValueError :: py_error + 'c::linorder list)))"
  by (auto simp: get_classification_ValueError)

theorem get_classification_raises_ValueError_witness:
  "length [(''a'', [0, 1 :: real])] \<noteq> length [1 / 2, 1 / 3, 1 :: real] \<and>
   get_classification [(''a'', [0, 1])] [1 / 2, 1 / 3, 1] (1 / 10) = Inl ValueError \<and>
   get_classification [(''b'', [1, 1, 1, 1])] [1, 1, 1] 5 = (Inl ValueError :: py_error + string list)"
  using get_classification_raises_ValueError
    [of "[(''a'', [0, 1 :: real])]" "[1 / 2, 1 / 3, 1 :: real]" "1 / 10"]
  by (simp add: get_classification_def)

text \<open>
  Claim C3. For duplicate-free class names (a set, or the names of a query grouped by name),
  a class \<open>c\<close> among them and an error bound with \<open>0 < error \<le> 4\<close>, decoding the codeword that
  \<^verbatim>\<open>get_codewords(classes)\<close> stores for \<open>c\<close> against that dictionary returns the list \<^verbatim>\<open>[c]\<close>.
\<close>

theorem decode_own_codeword:
  assumes "distinct classes" and "c \<in> set classes" and "0 < error" and "error \<le> 4"
  shows "\<exists>cw. map_of (get_codewords classes (- 1) 1) c = Some cw \<and>
      get_classification (get_codewords classes (- 1) 1) cw error = Inr [c]"
proof -
  let ?xs = "sort classes"
  let ?n = "length ?xs"
  let ?g = "\<lambda>i. (replicate ?n (- 1 :: real))[i := 1]"
  have d: "distinct ?xs" using assms(1) by simp
  have cws: "get_codewords classes (- 1) 1 = map (\<lambda>i. (?xs ! i, ?g i)) [0..<?n]"
    using codewords_fold_distinct_eq[OF d, of "length classes" "- 1" 1]
    by (simp add: get_codewords_def)
  from assms(2) have "c \<in> set ?xs" by simp
  then obtain k where k: "k < ?n" "?xs ! k = c" by (metis in_set_conv_nth)
  have "distinct (map fst (get_codewords classes (- 1) 1))"
    by (simp add: get_codewords_def codewords_fold_distinct)
  moreover have "(c, ?g k) \<in> set (get_codewords classes (- 1) 1)"
    unfolding cws using k by (auto simp: image_iff intro!: bexI[of _ k])
  ultimately have look: "map_of (get_codewords classes (- 1) 1) c = Some (?g k)"
    by (rule map_of_is_SomeI)
  have "get_classification (get_codewords classes (- 1) 1) (?g k) error = Inr [?xs ! k]"
    unfolding cws by (rule decode_one_hot[OF d k(1) assms(3,4)])
  with look k(2) show ?thesis by simp
qed

theorem decode_own_codeword_witness:
  "distinct [''b'', ''a'', ''c''] \<and> ''b'' \<in> set [''b'', ''a'', ''c''] \<and> (0::real) < 1 / 100 \<and>
   (1 / 100 :: real) \<le> 4 \<and>
   map_of (get_codewords [''b'', ''a'', ''c''] (- 1) 1) ''b'' = Some [- 1, 1, - 1] \<and>
   get_classification (get_codewords [''b'', ''a'', ''c''] (- 1) 1) [- 1, 1, - 1] (1 / 100)
     = Inr [''b'']"
proof -
  have h1: "distinct [''b'', ''a'', ''c'']" by simp
  have h2: "''b'' \<in> set [''b'', ''a'', ''c'']" by simp
  have h3: "(0::real) < 1 / 100" by simp
  have h4: "(1 / 100 :: real) \<le> 4" by simp
  have cws: "get_codewords [''b'', ''a'', ''c''] (- 1) 1 =
      [(''a'', [1, - 1, - 1]), (''b'', [- 1, 1, - 1]), (''c'', [- 1, - 1, 1])]"
    by (simp add: get_codewords_def codewords_step_def)
  show ?thesis
    using decode_own_codeword [OF h1 h2 h3 h4] h1 h2
    by (simp add: cws)
qed

section \<open>Properties of the tasks\<close>

subsection \<open>Exporting training data when the query finds no image\<close>

text \<open>
  Claim C8. When the query for images returns the empty list, \<^verbatim>\<open>export\<close> leaves every file
  as it was: it does not open the output file. With a class query that passes the checks
  it returns without raising.
\<close>

theorem export_no_images:
  "snd (export ext conf base_path [] filename fs) = fs \<and>
   (\<forall>cq. class_query conf = Some cq \<and> check_query cq = Inr () \<longrightarrow>
      export ext conf base_path [] filename fs = (None, fs))"
  by (simp add: export_def split: option.splits sum.splits)

theorem export_no_images_witness:
  "class_query \<lparr>class_query = Some \<lparr>cq_class = Some ''genus'', cq_where = None, cq_other_keys = []\<rparr>,
      features = None, dependent_prefix = None\<rparr>
     = Some \<lparr>cq_class = Some ''genus'', cq_where = None, cq_other_keys = []\<rparr> \<and>
   check_query \<lparr>cq_class = Some ''genus'', cq_where = None, cq_other_keys = []\<rparr> = Inr () \<and>
   export
     \<lparr>set_image = (\<lambda>p. None), make_phenotype = (\<lambda>p. Inr [1 / 2]),
      around6 = (\<lambda>x. x), str_of = (\<lambda>x. ''x''), format3 = (\<lambda>x. ''x'')\<rparr>
     \<lparr>class_query = Some \<lparr>cq_class = Some ''genus'', cq_where = None, cq_other_keys = []\<rparr>,
      features = None, dependent_prefix = None\<rparr>
     ''photos'' [] ''out.tsv'' [''out.tsv'' \<mapsto> [''old'']]
     = (None, [''out.tsv'' \<mapsto> [''old'']])"
  using export_no_images [of
     "\<lparr>set_image = (\<lambda>p. None), make_phenotype = (\<lambda>p. Inr [1 / 2]),
      around6 = (\<lambda>x. x), str_of = (\<lambda>x. ''x''), format3 = (\<lambda>x. ''x'')\<rparr>"
     "\<lparr>class_query = Some \<lparr>cq_class = Some ''genus'', cq_where = None, cq_other_keys = []\<rparr>,
      features = None, dependent_prefix = None\<rparr>"
     "''photos''" "''out.tsv''" "[''out.tsv'' \<mapsto> [''old'']]"]
  by (simp add: check_query_def)

subsection \<open>Classifying an image\<close>

text \<open>
  Claim C5. For a classifier built by the constructor from the rows of the class query, and
  an image from which the phenotyper makes a feature vector, \<^verbatim>\<open>classify\<close> returns what
  \<^verbatim>\<open>get_classification\<close> returns for the codewords of the queried class names and the output
  of the network on that feature vector.
\<close>

theorem classify_decodes:
  assumes "ImageClassifier conf ann_file rows = Inr self"
    and "set_image ext image_path = None"
    and "make_phenotype ext image_path = Inr phenotype"
  shows "\<exists>net. ann_file = Some net \<and>
     ic_classes self = map snd rows \<and>
     classify ext self image_path error =
       get_classification (get_codewords (map snd rows) (- 1) 1) (net phenotype) error"
  using assms
  by (auto simp: ImageClassifier_def classify_def split: option.splits sum.splits)

theorem classify_decodes_witness:
  "classify
     \<lparr>set_image = (\<lambda>p. None), make_phenotype = (\<lambda>p. Inr [1 / 2]),
      around6 = (\<lambda>x. x), str_of = (\<lambda>x. ''x''), format3 = (\<lambda>x. ''x'')\<rparr>
     \<lparr>ic_config = \<lparr>class_query = Some \<lparr>cq_class = Some ''genus'', cq_where = None,
                     cq_other_keys = []\<rparr>, features = None, dependent_prefix = None\<rparr>,
      ic_ann = (\<lambda>x. [1, 0]), ic_classes = map snd [(1 :: nat, ''b''), (2, ''a'')]\<rparr>
     ''img.jpg'' (1 / 100) = Inr [''a'']"
proof -
  let ?ext = "\<lparr>set_image = (\<lambda>p. None), make_phenotype = (\<lambda>p. Inr [1 / 2 :: real]),
      around6 = (\<lambda>x. x), str_of = (\<lambda>x. ''x''), format3 = (\<lambda>x. ''x'')\<rparr>"
  let ?conf = "\<lparr>class_query = Some \<lparr>cq_class = Some ''genus'', cq_where = None,
                     cq_other_keys = []\<rparr>, features = None, dependent_prefix = None\<rparr>"
  let ?net = "(\<lambda>x. [1, 0]) :: ann"
  let ?rows = "[(1 :: nat, ''b''), (2, ''a'')]"
  let ?self = "\<lparr>ic_config = ?conf, ic_ann = ?net, ic_classes = map snd ?rows\<rparr>"
  have h1: "ImageClassifier ?conf (Some ?net) ?rows = Inr ?self"
    by (simp add: ImageClassifier_def check_query_def)
  have h2: "set_image ?ext ''img.jpg'' = None" by simp
  have h3: "make_phenotype ?ext ''img.jpg'' = Inr [1 / 2]" by simp
  have "get_classification (get_codewords (map snd ?rows) (- 1) 1) (?net [1 / 2]) (1 / 100)
      = Inr [''a'']"
    by (simp add: get_codewords_def codewords_step_def get_classification_def)
  with classify_decodes [OF h1 h2 h3, of "1 / 100"] show ?thesis by simp
qed

subsection \<open>Exceptions in \<^verbatim>\<open>main\<close>\<close>

text \<open>
  Claim C4, amended. An exception (an instance of \<^verbatim>\<open>Exception\<close>) raised by the task \<^verbatim>\<open>data\<close>
  is logged by \<^verbatim>\<open>main\<close> and leaves \<^verbatim>\<open>main\<close>. One raised by the task \<^verbatim>\<open>ann\<close> is logged by
  \<^verbatim>\<open>main\<close>. An exception raised by the task \<^verbatim>\<open>test-ann\<close> (before or in \<^verbatim>\<open>export_results\<close>) or
  by the task \<^verbatim>\<open>classify\<close> leaves \<^verbatim>\<open>main\<close>, and \<^verbatim>\<open>main\<close> logs nothing. For every task, an
  exception of the task leaves \<^verbatim>\<open>main\<close> or is in the log.
\<close>

theorem main_exceptions:
  "main data a (Some (Exception e)) export_body class' logged =
     (Exception e, logged @ [LogError e]) \<and>
   snd (main ann a (Some (Exception e)) export_body class' logged) = logged @ [LogError e] \<and>
   main test_ann a (Some x) export_body class' logged = (x, logged) \<and>
   (\<forall>out db. arg_output a = Some out \<and> out \<noteq> [] \<and> arg_db a = Some db \<and> db \<noteq> [] \<longrightarrow>
      main test_ann a None (Some x) class' logged = (x, logged)) \<and>
   main classify_image a (Some x) export_body class' logged = (x, logged) \<and>
   (\<forall>cmd. fst (main cmd a (Some x) export_body class' logged) = x \<or>
      (\<exists>e'. x = Exception e' \<and>
         LogError e' \<in> set (snd (main cmd a (Some x) export_body class' logged))))"
proof -
  have "fst (main cmd a (Some x) export_body class' logged) = x \<or>
      (\<exists>e'. x = Exception e' \<and>
         LogError e' \<in> set (snd (main cmd a (Some x) export_body class' logged)))" for cmd
    by (cases cmd; cases x) (simp_all add: main_def)
  then show ?thesis
    by (simp add: main_def)
qed

text \<open>
  Claim C4, as stated, at a concrete input: an IOError raised by the task \<^verbatim>\<open>test-ann\<close>
  leaves \<^verbatim>\<open>main\<close> and is not logged.
\<close>

theorem main_test_ann_counterexample:
  "main test_ann \<lparr>arg_output = None, arg_db = None\<rparr> (Some (Exception IOError)) None [] []
     = (Exception IOError, []) \<and>
   LogError IOError \<notin> set (snd (main test_ann \<lparr>arg_output = None, arg_db = None\<rparr>
      (Some (Exception IOError)) None [] []))"
  by (simp add: main_def)

text \<open>
  The task \<^verbatim>\<open>ann\<close> at a concrete input: the IOError is logged and does not leave \<^verbatim>\<open>main\<close>,
  which ends with \<^verbatim>\<open>sys.exit()\<close>.
\<close>

lemma main_ann_swallows:
  "main ann \<lparr>arg_output = None, arg_db = None\<rparr> (Some (Exception IOError)) None [] []
     = (SystemExit NoArg, [LogError IOError])"
  by (simp add: main_def)

theorem main_exceptions_witness:
  "arg_output \<lparr>arg_output = Some ''r.tsv'', arg_db = Some ''photos.db''\<rparr> = Some ''r.tsv'' \<and>
   arg_db \<lparr>arg_output = Some ''r.tsv'', arg_db = Some ''photos.db''\<rparr> = Some ''photos.db'' \<and>
   main test_ann \<lparr>arg_output = Some ''r.tsv'', arg_db = Some ''photos.db''\<rparr> None
     (Some (Exception RuntimeError)) [] [] = (Exception RuntimeError, []) \<and>
   main data \<lparr>arg_output = Some ''r.tsv'', arg_db = Some ''photos.db''\<rparr>
     (Some (Exception IOError)) None [] [] = (Exception IOError, [LogError IOError])"
  using main_exceptions [of "\<lparr>arg_output = Some ''r.tsv'', arg_db = Some ''photos.db''\<rparr>"
      IOError None "[]" "[]" "Exception RuntimeError"]
  by (simp add: main_def)

subsection \<open>The width of the training data\<close>







subsection \<open>The table of test results\<close>

lemma results_loop_step:
  assumes "results_loop net codewords error ((lbl, inp, outp) # rest) t = (None, t')"
  shows "\<exists>run row. net = Some run \<and> result_row run codewords error (lbl, inp, outp) row \<and>
     results_loop net codewords error rest
       (t\<lparr>total := total t + 1,
          correct := correct t + matches [row],
          written := written t @ [join tab row],
          fraction := Some (real (correct t + matches [row]) / real (total t + 1))\<rparr>) = (None, t')"
proof -
  from assms have len: "length codewords = length outp"
    by (auto simp: Let_def split: if_splits)
  from assms len obtain class_expected where
    ce: "get_classification codewords outp error = Inr class_expected"
    by (cases "get_classification codewords outp error") (auto simp: Let_def)
  from assms len ce have one: "length class_expected = 1"
    by (auto simp: Let_def split: if_splits)
  then obtain expected where ex: "class_expected = [expected]"
    by (cases class_expected) auto
  from assms len ce one obtain run where run: "net = Some run"
    by (cases net) (auto simp: Let_def)
  from assms len ce one run obtain class_ann where
    ca: "get_classification codewords (run inp) error = Inr class_ann"
    by (cases "get_classification codewords (run inp) error") (auto simp: Let_def)
  let ?row = "[case lbl of None \<Rightarrow> [] | Some l \<Rightarrow> l, expected, join '', '' class_ann,
              if class_ann \<noteq> [] \<and> hd class_ann = expected then ''+'' else ''-'']"
  have rr: "result_row run codewords error (lbl, inp, outp) ?row"
    using ce ca ex by (simp add: result_row_def)
  have m: "matches [?row] = (if class_ann \<noteq> [] \<and> hd class_ann = expected then 1 else 0)"
    by (simp add: matches_def)
  have "results_loop net codewords error rest
       (t\<lparr>total := total t + 1,
          correct := correct t + matches [?row],
          written := written t @ [join tab ?row],
          fraction := Some (real (correct t + matches [?row]) / real (total t + 1))\<rparr>) = (None, t')"
    using assms len ce ex run ca unfolding m
    by (auto simp: Let_def add.commute split: if_splits)
  with run rr show ?thesis by blast
qed

lemma matches_Cons: "matches (row # table) = matches [row] + matches table"
  by (simp add: matches_def)

lemma results_loop_table:
  assumes "results_loop net codewords error ss t = (None, t')"
  shows "\<exists>table.
     list_all2 (\<lambda>s row. \<exists>run. net = Some run \<and> result_row run codewords error s row) ss table \<and>
     written t' = written t @ map (join tab) table \<and>
     total t' = total t + length ss \<and>
     correct t' = correct t + matches table \<and>
     (ss \<noteq> [] \<longrightarrow> fraction t' = Some (real (correct t') / real (total t')))"
  using assms
proof (induction ss arbitrary: t)
  case Nil
  then have "t' = t" by simp
  then show ?case by (intro exI[of _ "[]"]) (simp add: matches_def)
next
  case (Cons s ss)
  obtain lbl inp outp where s: "s = (lbl, inp, outp)" by (cases s)
  from results_loop_step[OF Cons.prems[unfolded s]]
  obtain run row where run: "net = Some run"
    and row: "result_row run codewords error (lbl, inp, outp) row"
    and rec: "results_loop net codewords error ss
       (t\<lparr>total := total t + 1,
          correct := correct t + matches [row],
          written := written t @ [join tab row],
          fraction := Some (real (correct t + matches [row]) / real (total t + 1))\<rparr>) = (None, t')"
    by blast
  let ?t2 = "t\<lparr>total := total t + 1,
          correct := correct t + matches [row],
          written := written t @ [join tab row],
          fraction := Some (real (correct t + matches [row]) / real (total t + 1))\<rparr>"
  from Cons.IH[OF rec]
  obtain table where tab2: "list_all2 (\<lambda>s row. \<exists>run. net = Some run \<and>
        result_row run codewords error s row) ss table"
    and wr: "written t' = written ?t2 @ map (join tab) table"
    and tot: "total t' = total ?t2 + length ss"
    and cor: "correct t' = correct ?t2 + matches table"
    and fr: "ss \<noteq> [] \<longrightarrow> fraction t' = Some (real (correct t') / real (total t'))"
    by blast
  have a: "list_all2 (\<lambda>s row. \<exists>run. net = Some run \<and>
        result_row run codewords error s row) (s # ss) (row # table)"
    using tab2 run row by (simp add: s)
  have b: "written t' = written t @ map (join tab) (row # table)"
    using wr by simp
  have c: "total t' = total t + length (s # ss)"
    using tot by simp
  have d: "correct t' = correct t + matches (row # table)"
    using cor by (simp add: matches_Cons[of row table])
  have e: "fraction t' = Some (real (correct t') / real (total t'))"
  proof (cases "ss = []")
    case True
    with rec have "t' = ?t2" by simp
    then show ?thesis by simp
  next
    case False
    with fr show ?thesis by simp
  qed
  from a b c d e show ?case by blast
qed

text \<open>
  What the file holds when \<^verbatim>\<open>export_results\<close> has returned without raising: the header
  line, then one row for every test sample, then a last line with three empty fields and
  the fraction of the rows marked \<^verbatim>\<open>+\<close> among all rows.
\<close>

lemma export_results_returned:
  assumes "export_results ext self rows filename error fs = (None, fs')"
  shows "\<exists>test_data net table.
     ta_test_data self = Some test_data \<and> ta_ann self = Some net \<and>
     length table = length (samples test_data) \<and>
     fs' = fs(filename \<mapsto>
        join tab [''ID'', ''Class'', ''Classification'', ''Match''] # map (join tab) table @
        [join tab ['''', '''', '''',
           format3 ext (real (length (filter (\<lambda>row. row ! 3 = ''+'') table)) /
                        real (length table))]]) \<and>
     (\<forall>i<length table. \<exists>label input output expected class_ann.
        samples test_data ! i = (label, input, output) \<and>
        get_classification (get_codewords (map snd rows) (- 1) 1) output error = Inr [expected] \<and>
        get_classification (get_codewords (map snd rows) (- 1) 1) (net input) error
          = Inr class_ann \<and>
        table ! i = [case label of None \<Rightarrow> [] | Some l \<Rightarrow> l, expected, join '', '' class_ann,
                     if class_ann \<noteq> [] \<and> hd class_ann = expected then ''+'' else ''-''])"
proof -
  let ?cws = "get_codewords (map snd rows) (- 1) 1"
  let ?header = "join tab [''ID'', ''Class'', ''Classification'', ''Match'']"
  let ?t0 = "\<lparr>total = 0, correct = 0, fraction = None, written = [?header]\<rparr>"
  from assms obtain test_data where td: "ta_test_data self = Some test_data"
    by (cases "ta_test_data self") (auto simp: export_results_def)
  from assms td obtain cq where cq: "class_query (ta_config self) = Some cq"
    by (cases "class_query (ta_config self)") (auto simp: export_results_def)
  from assms td cq have chk: "check_query cq = Inr ()"
    by (cases "check_query cq") (auto simp: export_results_def)
  from assms td cq chk have ne: "rows \<noteq> []"
    by (auto simp: export_results_def)
  obtain raised t where loop: "results_loop (ta_ann self) ?cws error (samples test_data) ?t0
      = (raised, t)"
    by (cases "results_loop (ta_ann self) ?cws error (samples test_data) ?t0")
  from assms td cq chk ne loop have r: "raised = None"
    by (cases raised) (auto simp: export_results_def Let_def)
  from assms td cq chk ne loop r obtain f where f: "fraction t = Some f"
    by (cases "fraction t") (auto simp: export_results_def Let_def)
  from assms td cq chk ne loop r f
  have out: "fs' = fs(filename \<mapsto> written t @ [join tab ['''', '''', '''', format3 ext f]])"
    by (auto simp: export_results_def Let_def)
  from results_loop_table[OF loop[unfolded r]]
  obtain table where tab2: "list_all2 (\<lambda>s row. \<exists>run. ta_ann self = Some run \<and>
        result_row run ?cws error s row) (samples test_data) table"
    and wr: "written t = written ?t0 @ map (join tab) table"
    and tot: "total t = total ?t0 + length (samples test_data)"
    and cor: "correct t = correct ?t0 + matches table"
    and fr: "samples test_data \<noteq> [] \<longrightarrow> fraction t = Some (real (correct t) / real (total t))"
    by blast
  have nonempty: "samples test_data \<noteq> []"
  proof
    assume "samples test_data = []"
    with loop have "t = ?t0" by simp
    with f show False by simp
  qed
  from tab2 have len: "length table = length (samples test_data)"
    by (simp add: list_all2_lengthD)
  from nonempty tab2 obtain net where net: "ta_ann self = Some net"
    by (cases "samples test_data"; cases table) auto
  from fr nonempty f tot cor len
  have fval: "f = real (length (filter (\<lambda>row. row ! 3 = ''+'') table)) / real (length table)"
    by (simp add: matches_def)
  have each: "\<forall>i<length table. \<exists>label input output expected class_ann.
        samples test_data ! i = (label, input, output) \<and>
        get_classification ?cws output error = Inr [expected] \<and>
        get_classification ?cws (net input) error = Inr class_ann \<and>
        table ! i = [case label of None \<Rightarrow> [] | Some l \<Rightarrow> l, expected, join '', '' class_ann,
                     if class_ann \<noteq> [] \<and> hd class_ann = expected then ''+'' else ''-'']"
  proof (intro allI impI)
    fix i assume i: "i < length table"
    obtain lbl inp outp where s: "samples test_data ! i = (lbl, inp, outp)"
      by (cases "samples test_data ! i")
    from tab2 i len net have "result_row net ?cws error (samples test_data ! i) (table ! i)"
      by (auto simp: list_all2_conv_all_nth)
    then show "\<exists>label input output expected class_ann.
        samples test_data ! i = (label, input, output) \<and>
        get_classification ?cws output error = Inr [expected] \<and>
        get_classification ?cws (net input) error = Inr class_ann \<and>
        table ! i = [case label of None \<Rightarrow> [] | Some l \<Rightarrow> l, expected, join '', '' class_ann,
                     if class_ann \<noteq> [] \<and> hd class_ann = expected then ''+'' else ''-'']"
      unfolding s result_row_def by auto
  qed
  from out wr fval have "fs' = fs(filename \<mapsto>
        ?header # map (join tab) table @
        [join tab ['''', '''', '''',
           format3 ext (real (length (filter (\<lambda>row. row ! 3 = ''+'') table)) /
                        real (length table))]])"
    by simp
  with td net len each show ?thesis by blast
qed

subsection \<open>When the table of test results is written\<close>

lemma get_codewords_distinct_map:
  assumes "distinct classes"
  shows "get_codewords classes neg pos =
     map (\<lambda>i. (sort classes ! i, (replicate (length classes) neg)[i := pos]))
       [0..<length classes]"
proof -
  have d: "distinct (sort classes)" using assms by simp
  from codewords_fold_distinct_eq[OF d, of "length classes" neg pos]
  show ?thesis by (simp add: get_codewords_def)
qed

lemma get_classification_returns:
  assumes "distinct classes" and "length codeword = length classes"
  shows "\<exists>class_ann. get_classification (get_codewords classes neg pos) codeword error
     = Inr class_ann"
proof -
  let ?cws = "get_codewords classes neg pos"
  have len: "length ?cws = length codeword"
    using assms by (simp add: get_codewords_distinct_map)
  have rng: "ones_in_range codeword ?cws"
    using assms by (auto simp: ones_in_range_def get_codewords_distinct_map)
  from get_classification_hits[OF len rng] show ?thesis by blast
qed

lemma results_loop_returns:
  assumes "\<forall>(label, input, output) \<in> set ss.
      (\<exists>expected. get_classification codewords output error = Inr [expected]) \<and>
      (\<exists>class_ann. get_classification codewords (run input) error = Inr class_ann)"
  shows "\<exists>t'. results_loop (Some run) codewords error ss t = (None, t')"
  using assms
proof (induction ss arbitrary: t)
  case Nil
  show ?case by simp
next
  case (Cons s ss)
  obtain lbl inp outp where s: "s = (lbl, inp, outp)" by (cases s)
  from Cons.prems obtain expected class_ann where
    e: "get_classification codewords outp error = Inr [expected]" and
    c: "get_classification codewords (run inp) error = Inr class_ann"
    by (auto simp: s)
  from e have len: "length codewords = length outp"
    by (auto simp: get_classification_def split: if_splits)
  from Cons.prems have rest: "\<forall>(label, input, output) \<in> set ss.
      (\<exists>expected. get_classification codewords output error = Inr [expected]) \<and>
      (\<exists>class_ann. get_classification codewords (run input) error = Inr class_ann)"
    by simp
  show ?case
    using Cons.IH[OF rest] e c len by (simp add: s Let_def)
qed

text \<open>
  Claim C6, as stated, at a concrete input: with two classes and one test sample whose
  target codeword has one entry, \<^verbatim>\<open>export_results\<close> raises RuntimeError (the check of
  lines 622 to 627) after the header line; the file holds no row for the sample and no
  line with the fraction.
\<close>

theorem export_results_guard_counterexample:
  "export_results
     \<lparr>set_image = (\<lambda>p. None), make_phenotype = (\<lambda>p. Inr [1 / 2]),
      around6 = (\<lambda>x. x), str_of = (\<lambda>x. ''x''), format3 = (\<lambda>x. ''x'')\<rparr>
     \<lparr>ta_config = \<lparr>class_query = Some \<lparr>cq_class = Some ''genus'', cq_where = None,
                     cq_other_keys = []\<rparr>, features = None, dependent_prefix = None\<rparr>,
      ta_test_data = Some \<lparr>num_input = 1, num_output = 1,
        samples = [(Some ''a.jpg'', [1 / 2], [1])]\<rparr>,
      ta_ann = Some (\<lambda>x. [1, 0])\<rparr>
     [(1, ''P''), (2, ''C'')] ''r.tsv'' (1 / 100) Map.empty
   = (Some RuntimeError,
      [''r.tsv'' \<mapsto> [join tab [''ID'', ''Class'', ''Classification'', ''Match'']]])"
proof -
  have cws: "get_codewords [''P'', ''C''] (- 1) 1 = [(''C'', [1, - 1]), (''P'', [- 1, 1])]"
    by (simp add: get_codewords_def codewords_step_def)
  show ?thesis
    unfolding export_results_def
    by (simp add: check_query_def cws Let_def)
qed

text \<open>
  With test data that hold no sample, \<^verbatim>\<open>fraction\<close> is read (line 649) before any
  assignment to it (line 646, in the loop): the file holds the header line only.
\<close>

lemma export_results_no_samples:
  "export_results
     \<lparr>set_image = (\<lambda>p. None), make_phenotype = (\<lambda>p. Inr [1 / 2]),
      around6 = (\<lambda>x. x), str_of = (\<lambda>x. ''x''), format3 = (\<lambda>x. ''x'')\<rparr>
     \<lparr>ta_config = \<lparr>class_query = Some \<lparr>cq_class = Some ''genus'', cq_where = None,
                     cq_other_keys = []\<rparr>, features = None, dependent_prefix = None\<rparr>,
      ta_test_data = Some \<lparr>num_input = 1, num_output = 2, samples = []\<rparr>,
      ta_ann = Some (\<lambda>x. [1, 0])\<rparr>
     [(1, ''P''), (2, ''C'')] ''r.tsv'' (1 / 100) Map.empty
   = (Some UnboundLocalError,
      [''r.tsv'' \<mapsto> [join tab [''ID'', ''Class'', ''Classification'', ''Match'']]])"
  unfolding export_results_def
  by (simp add: check_query_def Let_def)

text \<open>
  Claim C6, amended. Let the test data and the network be loaded, with at least one
  sample; let the class query be set and pass the checks, and the class names it returns be
  distinct; for every sample, let the target codeword decode to exactly one class and the
  output of the network have one entry for each class. Then \<^verbatim>\<open>export_results\<close> returns
  without raising, and the file holds the header line \<^verbatim>\<open>ID, Class, Classification, Match\<close>,
  then one row for every test sample, then a last line with three empty fields and the
  fraction of the rows marked \<^verbatim>\<open>+\<close> among all rows, formatted with \<^verbatim>\<open>%.3f\<close>. The row of a
  sample holds its label, the class decoded from its target codeword, the classes decoded
  from the output of the network, and \<^verbatim>\<open>+\<close> when that list is not empty and its first class
  is the expected class, \<^verbatim>\<open>-\<close> otherwise.
\<close>

theorem export_results_table:
  assumes "ta_test_data self = Some test_data" and "samples test_data \<noteq> []"
    and "ta_ann self = Some net"
    and "class_query (ta_config self) = Some cq" and "check_query cq = Inr ()"
    and "distinct (map snd rows)"
    and "\<forall>(label, input, output) \<in> set (samples test_data).
       (\<exists>expected. get_classification (get_codewords (map snd rows) (- 1) 1) output error
          = Inr [expected]) \<and>
       length (net input) = length rows"
  shows "\<exists>table.
     export_results ext self rows filename error fs =
       (None, fs(filename \<mapsto>
          join tab [''ID'', ''Class'', ''Classification'', ''Match''] # map (join tab) table @
          [join tab ['''', '''', '''',
             format3 ext (real (length (filter (\<lambda>row. row ! 3 = ''+'') table)) /
                          real (length table))]])) \<and>
     length table = length (samples test_data) \<and>
     (\<forall>i<length table. \<exists>label input output expected class_ann.
        samples test_data ! i = (label, input, output) \<and>
        get_classification (get_codewords (map snd rows) (- 1) 1) output error = Inr [expected] \<and>
        get_classification (get_codewords (map snd rows) (- 1) 1) (net input) error
          = Inr class_ann \<and>
        table ! i = [case label of None \<Rightarrow> [] | Some l \<Rightarrow> l, expected, join '', '' class_ann,
                     if class_ann \<noteq> [] \<and> hd class_ann = expected then ''+'' else ''-''])"
proof -
  let ?cws = "get_codewords (map snd rows) (- 1) 1"
  let ?header = "join tab [''ID'', ''Class'', ''Classification'', ''Match'']"
  let ?t0 = "\<lparr>total = 0, correct = 0, fraction = None, written = [?header]\<rparr>"
  have each: "\<forall>(label, input, output) \<in> set (samples test_data).
      (\<exists>expected. get_classification ?cws output error = Inr [expected]) \<and>
      (\<exists>class_ann. get_classification ?cws (net input) error = Inr class_ann)"
  proof (intro ballI, clarify, intro conjI)
    fix lbl inp outp assume mem: "(lbl, inp, outp) \<in> set (samples test_data)"
    with assms(7) show "\<exists>expected. get_classification ?cws outp error = Inr [expected]"
      by blast
    from mem assms(7) have "length (net inp) = length (map snd rows)" by auto
    with assms(6) show "\<exists>class_ann. get_classification ?cws (net inp) error = Inr class_ann"
      by (rule get_classification_returns)
  qed
  from results_loop_returns[OF each, of ?t0]
  obtain t where loop: "results_loop (Some net) ?cws error (samples test_data) ?t0 = (None, t)"
    by blast
  from results_loop_table[OF loop] assms(2)
  have fr: "fraction t = Some (real (correct t) / real (total t))" by blast
  have ne: "rows \<noteq> []"
  proof
    assume "rows = []"
    then have "?cws = []" by (simp add: get_codewords_def)
    moreover from assms(2) obtain lbl inp outp where "(lbl, inp, outp) \<in> set (samples test_data)"
      by (cases "samples test_data") auto
    with assms(7) obtain expected where "get_classification ?cws outp error = Inr [expected]"
      by blast
    ultimately show False
      by (simp add: get_classification_def split: if_splits)
  qed
  obtain fs' where ret: "export_results ext self rows filename error fs = (None, fs')"
    using assms(1,3,4,5) ne loop fr by (simp add: export_results_def Let_def)
  from export_results_returned[OF ret]
  obtain test_data' net' table where td': "ta_test_data self = Some test_data'"
    and net': "ta_ann self = Some net'"
    and len: "length table = length (samples test_data')"
    and out: "fs' = fs(filename \<mapsto>
        ?header # map (join tab) table @
        [join tab ['''', '''', '''',
           format3 ext (real (length (filter (\<lambda>row. row ! 3 = ''+'') table)) /
                        real (length table))]])"
    and rows': "\<forall>i<length table. \<exists>label input output expected class_ann.
        samples test_data' ! i = (label, input, output) \<and>
        get_classification ?cws output error = Inr [expected] \<and>
        get_classification ?cws (net' input) error = Inr class_ann \<and>
        table ! i = [case label of None \<Rightarrow> [] | Some l \<Rightarrow> l, expected, join '', '' class_ann,
                     if class_ann \<noteq> [] \<and> hd class_ann = expected then ''+'' else ''-'']"
    by blast
  from td' assms(1) have td_eq: "test_data' = test_data" by simp
  from net' assms(3) have net_eq: "net' = net" by simp
  from ret out have "export_results ext self rows filename error fs =
       (None, fs(filename \<mapsto>
          ?header # map (join tab) table @
          [join tab ['''', '''', '''',
             format3 ext (real (length (filter (\<lambda>row. row ! 3 = ''+'') table)) /
                          real (length table))]]))"
    by simp
  with len rows' show ?thesis
    unfolding td_eq net_eq by blast
qed

theorem export_results_table_witness:
  "\<exists>table.
     export_results
       \<lparr>set_image = (\<lambda>p. None), make_phenotype = (\<lambda>p. Inr [1 / 2]),
        around6 = (\<lambda>x. x), str_of = (\<lambda>x. ''x''),
        format3 = (\<lambda>x. if x = 1 / 2 then ''0.500'' else ''x'')\<rparr>
       \<lparr>ta_config = \<lparr>class_query = Some \<lparr>cq_class = Some ''genus'', cq_where = None,
                       cq_other_keys = []\<rparr>, features = None, dependent_prefix = None\<rparr>,
        ta_test_data = Some \<lparr>num_input = 1, num_output = 2,
          samples = [(Some ''a.jpg'', [1 / 2], [1, - 1]), (None, [1 / 3], [- 1, 1])]\<rparr>,
        ta_ann = Some (\<lambda>x. [1, 0])\<rparr>
       [(1, ''P''), (2, ''C'')] ''r.tsv'' (1 / 100) Map.empty
     = (None, [''r.tsv'' \<mapsto>
          join tab [''ID'', ''Class'', ''Classification'', ''Match''] # map (join tab) table @
          [join tab ['''', '''', '''',
             (if real (length (filter (\<lambda>row. row ! 3 = ''+'') table)) / real (length table)
                 = 1 / 2 then ''0.500'' else ''x'')]]]) \<and>
     length table = 2 \<and>
     table ! 0 = [''a.jpg'', ''C'', ''C'', ''+''] \<and>
     table ! 1 = ['''', ''P'', ''C'', ''-'']"
proof -
  let ?ext = "\<lparr>set_image = (\<lambda>p. None), make_phenotype = (\<lambda>p. Inr [1 / 2 :: real]),
      around6 = (\<lambda>x. x), str_of = (\<lambda>x. ''x''),
      format3 = (\<lambda>x. if x = 1 / 2 then ''0.500'' else ''x'')\<rparr>"
  let ?td = "\<lparr>num_input = 1, num_output = 2,
        samples = [(Some ''a.jpg'', [1 / 2], [1, - 1]), (None, [1 / 3], [- 1, 1 :: real])]\<rparr>"
  let ?cq = "\<lparr>cq_class = Some ''genus'', cq_where = None, cq_other_keys = []\<rparr>"
  let ?net = "(\<lambda>x. [1, 0]) :: ann"
  let ?self = "\<lparr>ta_config = \<lparr>class_query = Some ?cq, features = None, dependent_prefix = None\<rparr>,
      ta_test_data = Some ?td, ta_ann = Some ?net\<rparr>"
  let ?rows = "[(1 :: nat, ''P''), (2, ''C'')]"
  have cws: "get_codewords [''P'', ''C''] (- 1) 1 = [(''C'', [1, - 1]), (''P'', [- 1, 1])]"
    by (simp add: get_codewords_def codewords_step_def)
  have d1: "get_classification [(''C'', [1, - 1]), (''P'', [- 1, 1])] [1, - 1] (1 / 100) = Inr [''C'']"
    by (simp add: get_classification_def)
  have d2: "get_classification [(''C'', [1, - 1]), (''P'', [- 1, 1])] [- 1, 1] (1 / 100) = Inr [''P'']"
    by (simp add: get_classification_def)
  have d3: "get_classification [(''C'', [1, - 1]), (''P'', [- 1, 1])] [1, 0] (1 / 100) = Inr [''C'']"
    by (simp add: get_classification_def)
  have h1: "ta_test_data ?self = Some ?td" by simp
  have h2: "samples ?td \<noteq> []" by simp
  have h3: "ta_ann ?self = Some ?net" by simp
  have h4: "class_query (ta_config ?self) = Some ?cq" by simp
  have h5: "check_query ?cq = Inr ()" by (simp add: check_query_def)
  have h6: "distinct (map snd ?rows)" by simp
  have h7: "\<forall>(label, input, output) \<in> set (samples ?td).
       (\<exists>expected. get_classification (get_codewords (map snd ?rows) (- 1) 1) output (1 / 100)
          = Inr [expected]) \<and>
       length (?net input) = length ?rows"
    by (simp add: cws d1 d2)
  from export_results_table [OF h1 h2 h3 h4 h5 h6 h7, of ?ext "''r.tsv''" Map.empty]
  obtain table where r: "export_results ?ext ?self ?rows ''r.tsv'' (1 / 100) Map.empty =
       (None, [''r.tsv'' \<mapsto>
          join tab [''ID'', ''Class'', ''Classification'', ''Match''] # map (join tab) table @
          [join tab ['''', '''', '''',
             format3 ?ext (real (length (filter (\<lambda>row. row ! 3 = ''+'') table)) /
                          real (length table))]]])"
    and len: "length table = length (samples ?td)"
    and each: "\<forall>i<length table. \<exists>label input output expected class_ann.
        samples ?td ! i = (label, input, output) \<and>
        get_classification (get_codewords (map snd ?rows) (- 1) 1) output (1 / 100)
          = Inr [expected] \<and>
        get_classification (get_codewords (map snd ?rows) (- 1) 1) (?net input) (1 / 100)
          = Inr class_ann \<and>
        table ! i = [case label of None \<Rightarrow> [] | Some l \<Rightarrow> l, expected, join '', '' class_ann,
                     if class_ann \<noteq> [] \<and> hd class_ann = expected then ''+'' else ''-'']"
    by blast
  from len have l2: "length table = 2" by simp
  from each l2 have r0: "table ! 0 = [''a.jpg'', ''C'', ''C'', ''+'']"
    by (auto simp: cws d1 d3 dest!: spec[of _ 0])
  from each l2 have r1: "table ! 1 = ['''', ''P'', ''C'', ''-'']"
    by (auto simp: cws d2 d3 dest!: spec[of _ 1])
  from r have "export_results ?ext ?self ?rows ''r.tsv'' (1 / 100) Map.empty =
       (None, [''r.tsv'' \<mapsto>
          join tab [''ID'', ''Class'', ''Classification'', ''Match''] # map (join tab) table @
          [join tab ['''', '''', '''',
             (if real (length (filter (\<lambda>row. row ! 3 = ''+'') table)) / real (length table)
                 = 1 / 2 then ''0.500'' else ''x'')]]])"
    by simp
  with l2 r0 r1 show ?thesis by blast
qed

end
